theory Spec2Isabelle
  imports Main
begin

section \<open>Object storage module \<open>api/storage.py\<close>\<close>

text \<open>
  The module is a set of small wrappers around a remote object store (an S3 client) and
  the local file system. Its functions are embedded as state transformers over an
  explicit \<open>state\<close> (the local file system, the error log and the trace of external calls);
  what the outside world answers to each external call is a parameter, the record \<open>env\<close>.
  A Python exception is a value of \<open>outcome\<close>, so that each \<^verbatim>\<open>try\<close>/\<^verbatim>\<open>except\<close> of the source is
  a case distinction of the model.
\<close>

subsection \<open>Exceptions and outcomes\<close>

text \<open>
  \<open>ClientError c\<close> is botocore's \<^verbatim>\<open>ClientError\<close>, where \<open>c\<close> is what
  \<^verbatim>\<open>exc.response.get("Error", {}).get("Code")\<close> evaluates to (\<open>None\<close> when the response has no
  code). \<open>OtherException n\<close> is an exception of any other subclass of \<^verbatim>\<open>Exception\<close>, \<open>n\<close>
  its class name (a connection failure, \<^verbatim>\<open>OSError\<close>, \<^verbatim>\<open>JSONDecodeError\<close>, \<^verbatim>\<open>KeyError\<close>, ...).
\<close>

datatype exn = ClientError "string option" | OtherException string

datatype 'a outcome = Returns 'a | Raises exn

type_synonym path = string

subsection \<open>Configuration: the module constants of lines 13 to 18\<close>

text \<open>
  The constants are read once from the process environment. \<open>STORAGE_BACKEND\<close> is the
  lower-cased backend name, \<open>S3_ENABLED_ENV\<close> the truth value of
  \<^verbatim>\<open>os.environ.get("DEEPWIKI_S3_ENABLED", "").lower() in ["1", "true", "yes"]\<close>,
  \<open>S3_BUCKET\<close> is optional and \<open>S3_PREFIX\<close> a string (\<^verbatim>\<open>"deepwiki"\<close> when unset).
  \<^verbatim>\<open>S3_ENDPOINT_URL\<close> and \<^verbatim>\<open>S3_REGION\<close> only parametrise the construction of the client.
\<close>

record config =
  STORAGE_BACKEND :: string
  S3_ENABLED_ENV :: bool
  S3_BUCKET :: "string option"
  S3_PREFIX :: string

text \<open>Python's \<^verbatim>\<open>bool(S3_BUCKET)\<close>: \<^verbatim>\<open>None\<close> and the empty string are false.\<close>

definition truthy :: "string option \<Rightarrow> bool" where
  "truthy v = (case v of None \<Rightarrow> False | Some x \<Rightarrow> x \<noteq> [])"

definition s3_enabled :: "config \<Rightarrow> bool" where
  "s3_enabled cfg =
     (truthy (S3_BUCKET cfg) \<and> (STORAGE_BACKEND cfg = ''s3'' \<or> S3_ENABLED_ENV cfg))"

subsection \<open>Strings: \<^verbatim>\<open>str.replace\<close>, \<^verbatim>\<open>str.strip\<close>, \<^verbatim>\<open>str.join\<close>\<close>

text \<open>\<^verbatim>\<open>part.replace(os.sep, "/")\<close>, where \<^verbatim>\<open>os.sep\<close> is a single character.\<close>

definition replace_sep :: "char \<Rightarrow> string \<Rightarrow> string" where
  "replace_sep sep part = map (\<lambda>c. if c = sep then CHR ''/'' else c) part"

text \<open>\<^verbatim>\<open>s.strip("/")\<close>: every leading and every trailing slash is removed.\<close>

definition strip_slash :: "string \<Rightarrow> string" where
  "strip_slash s =
     rev (dropWhile (\<lambda>c. c = CHR ''/'') (rev (dropWhile (\<lambda>c. c = CHR ''/'') s)))"

text \<open>\<^verbatim>\<open>"/".join(parts)\<close>\<close>

fun join_slash :: "string list \<Rightarrow> string" where
  "join_slash [] = []"
| "join_slash [p] = p"
| "join_slash (p # q # ps) = p @ ''/'' @ join_slash (q # ps)"

subsection \<open>\<^verbatim>\<open>build_s3_key\<close>\<close>

text \<open>
  The loop of lines 27 to 32, with \<open>cleaned_parts\<close> as the accumulator: an empty part is
  skipped, and so is a part that is empty once normalised.
\<close>

fun clean_loop :: "char \<Rightarrow> string list \<Rightarrow> string list \<Rightarrow> string list" where
  "clean_loop sep cleaned_parts [] = cleaned_parts"
| "clean_loop sep cleaned_parts (part # parts) =
     (if part = [] then clean_loop sep cleaned_parts parts
      else let normalized = strip_slash (replace_sep sep part)
           in if normalized \<noteq> []
              then clean_loop sep (cleaned_parts @ [normalized]) parts
              else clean_loop sep cleaned_parts parts)"

text \<open>\<open>sep\<close> is \<^verbatim>\<open>os.sep\<close> of the platform the module runs on.\<close>

definition build_s3_key :: "char \<Rightarrow> config \<Rightarrow> string list \<Rightarrow> string" where
  "build_s3_key sep cfg parts =
     (let key = join_slash (clean_loop sep [] parts);
          prefix = strip_slash (S3_PREFIX cfg)
      in if prefix \<noteq> []
         then (if key \<noteq> [] then prefix @ ''/'' @ key else prefix)
         else key)"


subsection \<open>Segments of a key\<close>

text \<open>
  \<^verbatim>\<open>key.split("/")\<close>: the segments of a key. A key contains an empty segment when the empty
  string is among them (a leading slash, a trailing slash, or two adjacent slashes).
\<close>

fun split_slash :: "string \<Rightarrow> string list" where
  "split_slash [] = [[]]"
| "split_slash (c # cs) =
     (if c = CHR ''/'' then [] # split_slash cs
      else (case split_slash cs of [] \<Rightarrow> [[c]] | s # ss \<Rightarrow> (c # s) # ss))"

text \<open>
  What the specification says of the segments, in its words: empty segments are dropped,
  every path separator is replaced by a slash, slashes are stripped at both ends (and a
  segment that is empty after that is dropped as well). The replacement is written out
  here, character by character.
\<close>

definition cleaned_segments :: "char \<Rightarrow> string list \<Rightarrow> string list" where
  "cleaned_segments sep parts =
     filter (\<lambda>p. p \<noteq> [])
       (map (\<lambda>p. strip_slash (map (\<lambda>c. if c = sep then CHR ''/'' else c) p))
          (filter (\<lambda>p. p \<noteq> []) parts))"

text \<open>The stripped prefix followed by the cleaned segments, without the empty ones.\<close>

definition key_components :: "char \<Rightarrow> config \<Rightarrow> string list \<Rightarrow> string list" where
  "key_components sep cfg parts =
     filter (\<lambda>p. p \<noteq> []) (strip_slash (S3_PREFIX cfg) # cleaned_segments sep parts)"

text \<open>Two adjacent slashes somewhere in a string.\<close>

fun double_slash :: "string \<Rightarrow> bool" where
  "double_slash (a # b # cs) = ((a = CHR ''/'' \<and> b = CHR ''/'') \<or> double_slash (b # cs))"
| "double_slash cs = False"

text \<open>A key that starts with a slash, and one that ends with a slash.\<close>

definition leading_slash :: "string \<Rightarrow> bool" where
  "leading_slash k = (case k of [] \<Rightarrow> False | c # t \<Rightarrow> c = CHR ''/'')"

definition trailing_slash :: "string \<Rightarrow> bool" where
  "trailing_slash k = leading_slash (rev k)"

subsection \<open>The state and the outside world\<close>

text \<open>
  The external calls the module makes. \<open>Makedirs\<close> is local; the others are requests to
  the remote service (\<open>ListObjectsV2\<close> stands for the paginated listing as a whole).
  The first argument of a remote call is \<^verbatim>\<open>S3_BUCKET\<close> as the module passes it.
\<close>

datatype effect =
    Makedirs path
  | HeadObject "string option" string
  | GetObject "string option" string
  | PutObject "string option" string string
  | DownloadFile "string option" string path
  | UploadFile path "string option" string
  | DeleteObject "string option" string
  | ListObjectsV2 "string option" string

fun is_remote :: "effect \<Rightarrow> bool" where
  "is_remote (Makedirs d) = False"
| "is_remote e = True"

text \<open>\<^verbatim>\<open>logger.error(fmt, key, exc)\<close>\<close>

datatype log_entry = LogError string string exn

text \<open>
  \<open>dirs\<close> and \<open>files\<close> are the paths known to be directories and files of the local file
  system, \<open>error_log\<close> the entries logged at error severity, \<open>trace\<close> the external calls
  made so far, in order.
\<close>

record state =
  dirs :: "path set"
  files :: "path set"
  error_log :: "log_entry list"
  trace :: "effect list"

text \<open>
  A page of a listing and its entries, as the dictionaries the code reads:
  \<^verbatim>\<open>page.get("Contents", [])\<close>, \<^verbatim>\<open>entry["Key"]\<close>, \<^verbatim>\<open>entry.get("LastModified")\<close>,
  \<^verbatim>\<open>entry.get("Size", 0)\<close>. A field that is \<open>None\<close> is a key the dictionary does not have.
\<close>

record 't entry =
  entry_Key :: "string option"
  entry_LastModified :: "'t option"
  entry_Size :: "int option"

record 't page =
  Contents :: "'t entry list option"

text \<open>The dictionary \<^verbatim>\<open>{"key": ..., "last_modified": ..., "size": ...}\<close> of the result.\<close>

record 't item =
  item_key :: string
  item_last_modified :: "'t option"
  item_size :: int

text \<open>
  What the outside world answers. \<open>boto3_client\<close> is the outcome of \<^verbatim>\<open>_s3_client()\<close>
  (the construction of the client may raise); \<open>get_object_body\<close> is the outcome of
  \<^verbatim>\<open>get_object(...)\<close> followed by \<^verbatim>\<open>response["Body"].read()\<close>; \<open>json_loads\<close> is
  \<^verbatim>\<open>json.loads(payload.decode("utf-8"))\<close>, whose value is Python's \<^verbatim>\<open>None\<close> (here \<open>None\<close>)
  for the document \<^verbatim>\<open>null\<close> and a document \<open>Some doc\<close> otherwise; \<open>json_dumps\<close> is
  \<^verbatim>\<open>json.dumps(data, ensure_ascii=True).encode("utf-8")\<close>; \<open>paginate\<close> gives the pages the
  paginator yields and, if the iteration then fails, the exception it raises;
  \<open>timestamp_millis\<close> is \<^verbatim>\<open>int(value.timestamp() * 1000)\<close>. \<open>os_makedirs\<close> is the outcome of
  \<^verbatim>\<open>os.makedirs(d, exist_ok=True)\<close>; when it raises, \<open>os_makedirs_created\<close> says how many of
  the missing ancestors of \<open>d\<close> it had created before. \<open>'j\<close> is the type of JSON documents
  other than \<^verbatim>\<open>null\<close>, \<open>'t\<close> the type of timestamps.
\<close>

record ('j, 't) env =
  os_path_dirname :: "path \<Rightarrow> path"
  os_makedirs :: "path \<Rightarrow> unit outcome"
  os_makedirs_created :: "path \<Rightarrow> nat"
  boto3_client :: "unit outcome"
  head_object :: "string option \<Rightarrow> string \<Rightarrow> unit outcome"
  get_object_body :: "string option \<Rightarrow> string \<Rightarrow> string outcome"
  json_loads :: "string \<Rightarrow> 'j option outcome"
  json_dumps :: "'j \<Rightarrow> string outcome"
  put_object :: "string option \<Rightarrow> string \<Rightarrow> string \<Rightarrow> unit outcome"
  download_file :: "string option \<Rightarrow> string \<Rightarrow> path \<Rightarrow> unit outcome"
  upload_file :: "path \<Rightarrow> string option \<Rightarrow> string \<Rightarrow> unit outcome"
  delete_object :: "string option \<Rightarrow> string \<Rightarrow> unit outcome"
  paginate :: "string option \<Rightarrow> string \<Rightarrow> 't page list \<times> exn option"
  timestamp_millis :: "'t \<Rightarrow> int outcome"

subsection \<open>Sequencing and exception handling\<close>

type_synonym 'a prog = "state \<Rightarrow> 'a outcome \<times> state"

definition and_then :: "'a prog \<Rightarrow> ('a \<Rightarrow> 'b prog) \<Rightarrow> 'b prog" where
  "and_then m f s =
     (case m s of (Returns x, s') \<Rightarrow> f x s' | (Raises e, s') \<Rightarrow> (Raises e, s'))"

definition try_except :: "'a prog \<Rightarrow> (exn \<Rightarrow> 'a prog) \<Rightarrow> 'a prog" where
  "try_except body handler s =
     (case body s of (Returns x, s') \<Rightarrow> (Returns x, s') | (Raises e, s') \<Rightarrow> handler e s')"

definition logger_error :: "string \<Rightarrow> string \<Rightarrow> exn \<Rightarrow> state \<Rightarrow> state" where
  "logger_error fmt key e s = s\<lparr>error_log := error_log s @ [LogError fmt key e]\<rparr>"

text \<open>\<^verbatim>\<open>exc.response.get("Error", {}).get("Code") in ["404", "NoSuchKey", "NotFound"]\<close>\<close>

definition not_found_code :: "string option \<Rightarrow> bool" where
  "not_found_code c = (c \<in> set (map Some [''404'', ''NoSuchKey'', ''NotFound'']))"

text \<open>The remote service answered "not found".\<close>

fun is_not_found :: "exn \<Rightarrow> bool" where
  "is_not_found (ClientError c) = not_found_code c"
| "is_not_found (OtherException n) = False"

text \<open>No handler matches: the exception leaves the function.\<close>

definition reraise :: "exn \<Rightarrow> 'a prog" where
  "reraise e s = (Raises e, s)"

text \<open>
  \<^verbatim>\<open>except Exception as exc: logger.error(fmt, key, exc); return dflt\<close>
\<close>

definition except_Exception :: "string \<Rightarrow> string \<Rightarrow> 'a \<Rightarrow> exn \<Rightarrow> 'a prog" where
  "except_Exception fmt key dflt e s = (Returns dflt, logger_error fmt key e s)"

text \<open>
  \<^verbatim>\<open>except ClientError as exc:\<close> with the body "return \<open>dflt\<close> if the code is a not-found
  code, else log and return \<open>dflt\<close>"; an exception of another class goes to \<open>otherwise\<close>
  (the next \<^verbatim>\<open>except\<close> clause, or none).
\<close>

definition except_ClientError ::
  "string \<Rightarrow> string \<Rightarrow> 'a \<Rightarrow> (exn \<Rightarrow> 'a prog) \<Rightarrow> exn \<Rightarrow> 'a prog" where
  "except_ClientError fmt key dflt otherwise e s =
     (case e of
        ClientError c \<Rightarrow>
          if not_found_code c then (Returns dflt, s)
          else (Returns dflt, logger_error fmt key e s)
      | OtherException n \<Rightarrow> otherwise e s)"

subsection \<open>External calls\<close>

definition os_path_exists :: "path \<Rightarrow> state \<Rightarrow> bool" where
  "os_path_exists p s = (p \<in> dirs s \<or> p \<in> files s)"

text \<open>
  The directories \<^verbatim>\<open>os.makedirs(d, exist_ok=True)\<close> makes, in the order it makes them. As
  in the library: \<^verbatim>\<open>head, tail = path.split(name)\<close>, and if \<^verbatim>\<open>head\<close> is not empty and does
  not exist, \<^verbatim>\<open>makedirs(head)\<close> comes first, then \<^verbatim>\<open>mkdir(name)\<close>. \<open>dn\<close> is
  \<^verbatim>\<open>os.path.dirname\<close> (the head of \<^verbatim>\<open>path.split\<close>), \<open>ex\<close> is \<^verbatim>\<open>os.path.exists\<close>. A path that
  is its own head (the root) has no ancestor to make. The recursion of the library ends
  because each head is shorter than its path; here the number of steps left is an
  argument, and \<open>length d\<close> steps are enough.
\<close>

fun makedirs_chain :: "(path \<Rightarrow> path) \<Rightarrow> (path \<Rightarrow> bool) \<Rightarrow> nat \<Rightarrow> path \<Rightarrow> path list" where
  "makedirs_chain dn ex 0 d = [d]"
| "makedirs_chain dn ex (Suc n) d =
     (let head = dn d
      in if head \<noteq> [] \<and> head \<noteq> d \<and> \<not> ex head
         then makedirs_chain dn ex n head @ [d]
         else [d])"

text \<open>
  \<^verbatim>\<open>os.makedirs(d, exist_ok=True)\<close>: when it returns, \<open>d\<close> and every ancestor of \<open>d\<close> that
  was missing are directories; when it raises, the ancestors it had made before stay, and
  \<open>d\<close> itself was not made.
\<close>

definition makedirs :: "('j, 't) env \<Rightarrow> path \<Rightarrow> unit prog" where
  "makedirs env d s =
     (let chain = makedirs_chain (os_path_dirname env) (\<lambda>p. os_path_exists p s) (length d) d
      in case os_makedirs env d of
           Returns u \<Rightarrow>
             (Returns (), s\<lparr>dirs := dirs s \<union> set chain, trace := trace s @ [Makedirs d]\<rparr>)
         | Raises e \<Rightarrow>
             (Raises e,
              s\<lparr>dirs := dirs s \<union> set (take (os_makedirs_created env d) (butlast chain)),
                trace := trace s @ [Makedirs d]\<rparr>))"

text \<open>\<^verbatim>\<open>_s3_client()\<close>\<close>

definition s3_client :: "('j, 't) env \<Rightarrow> unit prog" where
  "s3_client env s = (boto3_client env, s)"

text \<open>\<^verbatim>\<open>_s3_client().m(...)\<close>: the client is obtained, then the request \<open>ev\<close> is made.\<close>

definition request :: "('j, 't) env \<Rightarrow> effect \<Rightarrow> 'a outcome \<Rightarrow> 'a prog" where
  "request env ev out =
     and_then (s3_client env) (\<lambda>u s. (out, s\<lparr>trace := trace s @ [ev]\<rparr>))"

text \<open>A download that succeeds writes the local file.\<close>

definition client_download_file ::
  "('j, 't) env \<Rightarrow> string option \<Rightarrow> string \<Rightarrow> path \<Rightarrow> unit prog" where
  "client_download_file env bucket key local_path =
     and_then (request env (DownloadFile bucket key local_path)
                 (download_file env bucket key local_path))
       (\<lambda>u s. (Returns (), s\<lparr>files := insert local_path (files s)\<rparr>))"

subsection \<open>The operations\<close>

definition s3_object_exists :: "config \<Rightarrow> ('j, 't) env \<Rightarrow> string \<Rightarrow> bool prog" where
  "s3_object_exists cfg env key s =
     (if \<not> s3_enabled cfg then (Returns False, s)
      else try_except
             (and_then (request env (HeadObject (S3_BUCKET cfg) key)
                          (head_object env (S3_BUCKET cfg) key))
                (\<lambda>u s'. (Returns True, s')))
             (except_ClientError ''S3 head_object failed for %s: %s'' key False reraise) s)"

definition s3_read_json :: "config \<Rightarrow> ('j, 't) env \<Rightarrow> string \<Rightarrow> 'j option prog" where
  "s3_read_json cfg env key s =
     (if \<not> s3_enabled cfg then (Returns None, s)
      else try_except
             (and_then (request env (GetObject (S3_BUCKET cfg) key)
                          (get_object_body env (S3_BUCKET cfg) key))
                (\<lambda>payload s'.
                   (case json_loads env payload of
                      Returns doc \<Rightarrow> (Returns doc, s')
                    | Raises e \<Rightarrow> (Raises e, s'))))
             (except_ClientError ''S3 get_object failed for %s: %s'' key None
                (except_Exception ''S3 read_json failed for %s: %s'' key None)) s)"

definition s3_write_json :: "config \<Rightarrow> ('j, 't) env \<Rightarrow> string \<Rightarrow> 'j \<Rightarrow> bool prog" where
  "s3_write_json cfg env key data s =
     (if \<not> s3_enabled cfg then (Returns False, s)
      else try_except
             (and_then (\<lambda>s'. (json_dumps env data, s'))
                (\<lambda>payload.
                   and_then (request env (PutObject (S3_BUCKET cfg) key payload)
                               (put_object env (S3_BUCKET cfg) key payload))
                     (\<lambda>u s'. (Returns True, s'))))
             (except_Exception ''S3 write_json failed for %s: %s'' key False) s)"

definition s3_download_file :: "config \<Rightarrow> ('j, 't) env \<Rightarrow> string \<Rightarrow> path \<Rightarrow> bool prog" where
  "s3_download_file cfg env key local_path s =
     (if \<not> s3_enabled cfg then (Returns False, s)
      else try_except
             (and_then (makedirs env (os_path_dirname env local_path))
                (\<lambda>u. and_then (client_download_file env (S3_BUCKET cfg) key local_path)
                       (\<lambda>u s'. (Returns True, s'))))
             (except_ClientError ''S3 download_file failed for %s: %s'' key False
                (except_Exception ''S3 download_file failed for %s: %s'' key False)) s)"

definition s3_upload_file :: "config \<Rightarrow> ('j, 't) env \<Rightarrow> path \<Rightarrow> string \<Rightarrow> bool prog" where
  "s3_upload_file cfg env local_path key s =
     (if \<not> s3_enabled cfg then (Returns False, s)
      else if \<not> os_path_exists local_path s then (Returns False, s)
      else try_except
             (and_then (request env (UploadFile local_path (S3_BUCKET cfg) key)
                          (upload_file env local_path (S3_BUCKET cfg) key))
                (\<lambda>u s'. (Returns True, s')))
             (except_Exception ''S3 upload_file failed for %s: %s'' key False) s)"

definition s3_delete_object :: "config \<Rightarrow> ('j, 't) env \<Rightarrow> string \<Rightarrow> bool prog" where
  "s3_delete_object cfg env key s =
     (if \<not> s3_enabled cfg then (Returns False, s)
      else try_except
             (and_then (request env (DeleteObject (S3_BUCKET cfg) key)
                          (delete_object env (S3_BUCKET cfg) key))
                (\<lambda>u s'. (Returns True, s')))
             (except_Exception ''S3 delete_object failed for %s: %s'' key False) s)"

text \<open>\<^verbatim>\<open>page.get("Contents", [])\<close>\<close>

definition page_entries :: "'t page \<Rightarrow> 't entry list" where
  "page_entries pg = (case Contents pg of None \<Rightarrow> [] | Some es \<Rightarrow> es)"

text \<open>The inner loop of lines 135 to 142; \<^verbatim>\<open>entry["Key"]\<close> raises when the key is missing.\<close>

fun entries_loop :: "'t item list \<Rightarrow> 't entry list \<Rightarrow> 't item list outcome" where
  "entries_loop items [] = Returns items"
| "entries_loop items (en # rest) =
     (case entry_Key en of
        None \<Rightarrow> Raises (OtherException ''KeyError'')
      | Some k \<Rightarrow>
          entries_loop
            (items @ [\<lparr>item_key = k, item_last_modified = entry_LastModified en,
                       item_size = (case entry_Size en of None \<Rightarrow> 0 | Some n \<Rightarrow> n)\<rparr>])
            rest)"

text \<open>
  The outer loop of line 134 over the pages the paginator yields; when the pages are
  used up, the iteration ends or raises what the paginator raises.
\<close>

fun pages_loop ::
  "'t item list \<Rightarrow> 't page list \<Rightarrow> exn option \<Rightarrow> 't item list outcome" where
  "pages_loop items [] None = Returns items"
| "pages_loop items [] (Some e) = Raises e"
| "pages_loop items (pg # pages) err =
     (case entries_loop items (page_entries pg) of
        Raises e \<Rightarrow> Raises e
      | Returns items' \<Rightarrow> pages_loop items' pages err)"

text \<open>
  The item the loop appends for an entry that has its \<^verbatim>\<open>Key\<close>: the key, the optional
  last-modified timestamp, and the size (0 when the entry has none).
\<close>

definition listing_item :: "'t entry \<Rightarrow> 't item" where
  "listing_item en =
     \<lparr>item_key = the (entry_Key en), item_last_modified = entry_LastModified en,
      item_size = (case entry_Size en of None \<Rightarrow> 0 | Some n \<Rightarrow> n)\<rparr>"

definition s3_list_objects ::
  "config \<Rightarrow> ('j, 't) env \<Rightarrow> string \<Rightarrow> 't item list prog" where
  "s3_list_objects cfg env prefix s =
     (if \<not> s3_enabled cfg then (Returns [], s)
      else and_then (s3_client env)
             (\<lambda>client s'.
                (pages_loop [] (fst (paginate env (S3_BUCKET cfg) prefix))
                   (snd (paginate env (S3_BUCKET cfg) prefix)),
                 s'\<lparr>trace := trace s' @ [ListObjectsV2 (S3_BUCKET cfg) prefix]\<rparr>)) s)"

definition ensure_local_file :: "config \<Rightarrow> ('j, 't) env \<Rightarrow> path \<Rightarrow> string \<Rightarrow> bool prog" where
  "ensure_local_file cfg env local_path key s =
     (if os_path_exists local_path s then (Returns True, s)
      else if \<not> s3_enabled cfg then (Returns False, s)
      else and_then (s3_object_exists cfg env key)
             (\<lambda>found. if \<not> found then (\<lambda>s'. (Returns False, s'))
                      else s3_download_file cfg env key local_path) s)"

definition parse_s3_last_modified :: "('j, 't) env \<Rightarrow> 't option \<Rightarrow> int option" where
  "parse_s3_last_modified env v =
     (case v of
        None \<Rightarrow> None
      | Some t \<Rightarrow> (case timestamp_millis env t of Returns n \<Rightarrow> Some n | Raises e \<Rightarrow> None))"

subsection \<open>A concrete world, for evaluation\<close>

text \<open>\<^verbatim>\<open>posixpath.dirname\<close>, the \<^verbatim>\<open>os.path.dirname\<close> of a POSIX platform.\<close>

definition posix_dirname :: "path \<Rightarrow> path" where
  "posix_dirname p =
     (let head = rev (dropWhile (\<lambda>c. c \<noteq> CHR ''/'') (rev p))
      in if head \<noteq> [] \<and> \<not> (\<forall>c \<in> set head. c = CHR ''/'')
         then rev (dropWhile (\<lambda>c. c = CHR ''/'') (rev head))
         else head)"

text \<open>
  A world in which the remote calls succeed and the bucket listing is empty;
  \<^verbatim>\<open>os.makedirs("")\<close> raises, as it does on every platform.
\<close>

definition env_ok :: "(string, int) env" where
  "env_ok =
     \<lparr>os_path_dirname = posix_dirname,
      os_makedirs =
        (\<lambda>d. if d = [] then Raises (OtherException ''FileNotFoundError'') else Returns ()),
      os_makedirs_created = (\<lambda>d. 0),
      boto3_client = Returns (),
      head_object = (\<lambda>b k. Returns ()),
      get_object_body = (\<lambda>b k. Returns ''{}''),
      json_loads = (\<lambda>payload. Returns (if payload = ''null'' then None else Some payload)),
      json_dumps = (\<lambda>doc. Returns doc),
      put_object = (\<lambda>b k payload. Returns ()),
      download_file = (\<lambda>b k p. Returns ()),
      upload_file = (\<lambda>p b k. Returns ()),
      delete_object = (\<lambda>b k. Returns ()),
      paginate = (\<lambda>b p. ([], None)),
      timestamp_millis = (\<lambda>t. Returns t)\<rparr>"

definition cfg_s3 :: config where
  "cfg_s3 = \<lparr>STORAGE_BACKEND = ''s3'', S3_ENABLED_ENV = False, S3_BUCKET = Some ''bucket'',
            S3_PREFIX = ''deepwiki''\<rparr>"

definition cfg_local :: config where
  "cfg_local = \<lparr>STORAGE_BACKEND = ''local'', S3_ENABLED_ENV = False, S3_BUCKET = None,
               S3_PREFIX = ''deepwiki''\<rparr>"

definition s_empty :: state where
  "s_empty = \<lparr>dirs = {}, files = {}, error_log = [], trace = []\<rparr>"

text \<open>Three pages of a listing: two entries, a page without \<^verbatim>\<open>Contents\<close>, one entry.\<close>

definition pages_example :: "int page list" where
  "pages_example =
     [\<lparr>Contents = Some [\<lparr>entry_Key = Some ''p/a'', entry_LastModified = Some 1700000000,
                           entry_Size = Some 12\<rparr>,
                         \<lparr>entry_Key = Some ''p/b'', entry_LastModified = None,
                           entry_Size = None\<rparr>]\<rparr>,
      \<lparr>Contents = None\<rparr>,
      \<lparr>Contents = Some [\<lparr>entry_Key = Some ''p/c'', entry_LastModified = Some 1700000001,
                           entry_Size = Some 0\<rparr>]\<rparr>]"

section \<open>Properties of \<^verbatim>\<open>build_s3_key\<close>\<close>

lemma strip_slash_Nil [simp]: "strip_slash [] = []" by (simp add: strip_slash_def)

lemma clean_loop_eq: "clean_loop sep acc parts = acc @ cleaned_segments sep parts"
  by (induction parts arbitrary: acc) (auto simp: cleaned_segments_def replace_sep_def Let_def)

lemma rstrip_split: "rev (dropWhile P (rev t)) @ rev (takeWhile P (rev t)) = t"
proof -
  have "rev (takeWhile P (rev t) @ dropWhile P (rev t)) = rev (rev t)"
    by (simp only: takeWhile_dropWhile_id)
  then show ?thesis by (simp only: rev_append rev_rev_ident)
qed

lemma strip_slash_hd:
  assumes "strip_slash s \<noteq> []"
  shows "hd (strip_slash s) \<noteq> CHR ''/''"
proof -
  define t where "t = dropWhile (\<lambda>c. c = CHR ''/'') s"
  define u where "u = rev (dropWhile (\<lambda>c. c = CHR ''/'') (rev t))"
  define v where "v = rev (takeWhile (\<lambda>c. c = CHR ''/'') (rev t))"
  have su: "strip_slash s = u" by (simp only: strip_slash_def t_def u_def)
  have une: "u \<noteq> []" using assms unfolding su .
  have t: "u @ v = t" unfolding u_def v_def by (rule rstrip_split)
  have tne: "t \<noteq> []"
  proof
    assume "t = []"
    with t have "u @ v = []" by simp
    then have "u = []" by simp
    with une show False by simp
  qed
  have "hd (u @ v) = hd u" using une by (rule hd_append2)
  then have "hd u = hd t" unfolding t by simp
  moreover have "hd t \<noteq> CHR ''/''"
    using tne hd_dropWhile [of "\<lambda>c. c = CHR ''/''" s] unfolding t_def by simp
  ultimately show ?thesis unfolding su by simp
qed

lemma strip_slash_last:
  assumes "strip_slash s \<noteq> []" shows "last (strip_slash s) \<noteq> CHR ''/''"
proof -
  let ?P = "\<lambda>c. c = CHR ''/''"
  let ?u = "dropWhile ?P (rev (dropWhile ?P s))"
  have ne: "?u \<noteq> []" using assms by (simp add: strip_slash_def)
  then have "\<not> ?P (hd ?u)" by (rule hd_dropWhile)
  moreover have "last (rev ?u) = hd ?u" using ne by (simp add: last_rev)
  ultimately show ?thesis by (simp add: strip_slash_def)
qed

lemma split_slash_not_Nil [simp]: "split_slash s \<noteq> []"
  by (induction s) (simp_all split: list.split)

lemma split_slash_append: "split_slash (a @ CHR ''/'' # b) = split_slash a @ split_slash b"
proof (induction a)
  case Nil
  show ?case by simp
next
  case (Cons c a)
  show ?case
  proof (cases "c = CHR ''/''")
    case True
    then show ?thesis using Cons by simp
  next
    case False
    obtain x xs where x: "split_slash a = x # xs" by (cases "split_slash a") simp_all
    with False Cons show ?thesis by simp
  qed
qed

lemma split_join: "ps \<noteq> [] \<Longrightarrow> split_slash (join_slash ps) = concat (map split_slash ps)"
proof (induction ps rule: join_slash.induct)
  case 1
  then show ?case by simp
next
  case (2 p)
  then show ?case by simp
next
  case (3 p q ps)
  then show ?case using split_slash_append [of p "join_slash (q # ps)"] by simp
qed


lemma strip_slash_eq_Nil: "set s \<subseteq> {CHR ''/''} \<Longrightarrow> strip_slash s = []"
proof -
  assume a: "set s \<subseteq> {CHR ''/''}"
  then have "dropWhile (\<lambda>c. c = CHR ''/'') s = []" by (induction s) simp_all
  then show ?thesis by (simp only: strip_slash_def rev.simps dropWhile.simps)
qed

lemma cleaned_segments_props:
  "p \<in> set (cleaned_segments sep parts) \<Longrightarrow> p \<noteq> [] \<and> hd p \<noteq> CHR ''/'' \<and> last p \<noteq> CHR ''/''"
  by (auto simp: cleaned_segments_def strip_slash_hd strip_slash_last)

lemma cleaned_segments_filter:
  "cleaned_segments sep parts = filter (\<lambda>p. p \<noteq> []) (map (\<lambda>p. strip_slash (replace_sep sep p)) parts)"
  by (induction parts) (auto simp: cleaned_segments_def replace_sep_def)

lemma join_slash_Cons: "ps \<noteq> [] \<Longrightarrow> join_slash (p # ps) = p @ ''/'' @ join_slash ps"
  by (cases ps) simp_all

lemma join_slash_eq_Nil: "\<forall>p \<in> set ps. p \<noteq> [] \<Longrightarrow> join_slash ps = [] \<longleftrightarrow> ps = []"
  by (induction ps rule: join_slash.induct) simp_all

lemma build_s3_key_join: "build_s3_key sep cfg parts = join_slash (key_components sep cfg parts)"
proof -
  have c: "filter (\<lambda>p. p \<noteq> []) (cleaned_segments sep parts) = cleaned_segments sep parts"
    by (simp add: cleaned_segments_def)
  have k: "join_slash (cleaned_segments sep parts) = [] \<longleftrightarrow> cleaned_segments sep parts = []"
    by (rule join_slash_eq_Nil) (simp add: cleaned_segments_def)
  show ?thesis
    by (cases "cleaned_segments sep parts = []")
       (simp_all add: build_s3_key_def key_components_def clean_loop_eq c k join_slash_Cons)
qed

lemma key_components_props:
  "p \<in> set (key_components sep cfg parts) \<Longrightarrow>
     p \<noteq> [] \<and> hd p \<noteq> CHR ''/'' \<and> last p \<noteq> CHR ''/''"
  using cleaned_segments_props [of p sep parts]
  by (auto simp: key_components_def strip_slash_hd strip_slash_last split: if_splits)

lemma join_slash_edges:
  "ps \<noteq> [] \<Longrightarrow> \<forall>p \<in> set ps. p \<noteq> [] \<and> hd p \<noteq> CHR ''/'' \<and> last p \<noteq> CHR ''/'' \<Longrightarrow>
   join_slash ps \<noteq> [] \<and> hd (join_slash ps) \<noteq> CHR ''/'' \<and> last (join_slash ps) \<noteq> CHR ''/''"
  by (induction ps rule: join_slash.induct) simp_all

lemma build_s3_key_edges:
  assumes "build_s3_key sep cfg parts \<noteq> []"
  shows "hd (build_s3_key sep cfg parts) \<noteq> CHR ''/''
         \<and> last (build_s3_key sep cfg parts) \<noteq> CHR ''/''"
proof -
  have ne: "key_components sep cfg parts \<noteq> []"
    using assms by (auto simp: build_s3_key_join)
  have "\<forall>p \<in> set (key_components sep cfg parts).
          p \<noteq> [] \<and> hd p \<noteq> CHR ''/'' \<and> last p \<noteq> CHR ''/''"
    using key_components_props by blast
  with ne show ?thesis unfolding build_s3_key_join by (simp add: join_slash_edges)
qed

lemma build_s3_key_split:
  assumes "build_s3_key sep cfg parts \<noteq> []"
  shows "split_slash (build_s3_key sep cfg parts)
         = concat (map split_slash (key_components sep cfg parts))"
proof -
  have ne: "key_components sep cfg parts \<noteq> []"
    using assms by (auto simp: build_s3_key_join)
  then show ?thesis unfolding build_s3_key_join by (rule split_join)
qed

lemma empty_segment_tail:
  "[] \<in> set (tl (split_slash s)) \<longleftrightarrow> s \<noteq> [] \<and> (last s = CHR ''/'' \<or> double_slash s)"
proof (induction s)
  case Nil
  show ?case by simp
next
  case (Cons c r)
  obtain x xs where x: "split_slash r = x # xs" by (cases "split_slash r") simp_all
  have h: "x = [] \<longleftrightarrow> r = [] \<or> hd r = CHR ''/''"
    using x by (cases r) (auto split: if_splits list.splits)
  show ?case
  proof (cases r)
    case Nil
    then show ?thesis by simp
  next
    case (Cons b r')
    with Cons.IH x h show ?thesis by (cases "c = CHR ''/''") auto
  qed
qed

lemma empty_segment_iff:
  "[] \<in> set (split_slash s) \<longleftrightarrow>
     s = [] \<or> hd s = CHR ''/'' \<or> last s = CHR ''/'' \<or> double_slash s"
proof (cases s)
  case Nil
  then show ?thesis by simp
next
  case (Cons c r)
  obtain x xs where x: "split_slash r = x # xs" by (cases "split_slash r") simp_all
  show ?thesis
  proof (cases "c = CHR ''/''")
    case True
    with Cons show ?thesis by simp
  next
    case False
    have "[] \<in> set (split_slash s) \<longleftrightarrow> [] \<in> set (tl (split_slash s))"
      using Cons False x by simp
    then show ?thesis using empty_segment_tail [of s] Cons False by simp
  qed
qed

lemma set_strip_slash: "set (strip_slash s) \<subseteq> set s"
proof -
  have "set (strip_slash s) = set (dropWhile (\<lambda>c. c = CHR ''/'') (rev (dropWhile (\<lambda>c. c = CHR ''/'') s)))"
    by (simp add: strip_slash_def)
  also have "\<dots> \<subseteq> set (rev (dropWhile (\<lambda>c. c = CHR ''/'') s))"
    by (meson set_dropWhileD subsetI)
  also have "\<dots> \<subseteq> set s"
    using set_dropWhileD by fastforce
  finally show ?thesis .
qed

lemma cleaned_segments_no_sep:
  assumes "sep \<noteq> CHR ''/''" and "p \<in> set (cleaned_segments sep parts)"
  shows "sep \<notin> set p"
proof -
  obtain q where p: "p = strip_slash (map (\<lambda>c. if c = sep then CHR ''/'' else c) q)"
    using assms(2) by (auto simp: cleaned_segments_def)
  have "sep \<notin> set (map (\<lambda>c. if c = sep then CHR ''/'' else c) q)"
    using assms(1) by auto
  then show ?thesis unfolding p using set_strip_slash by blast
qed

lemma set_join_slash: "set (join_slash ps) \<subseteq> (\<Union>p \<in> set ps. set p) \<union> {CHR ''/''}"
  by (induction ps rule: join_slash.induct) auto

lemma build_s3_key_no_sep:
  assumes "sep \<noteq> CHR ''/''" and "sep \<notin> set (S3_PREFIX cfg)"
  shows "sep \<notin> set (build_s3_key sep cfg parts)"
proof
  assume "sep \<in> set (build_s3_key sep cfg parts)"
  then have "sep \<in> (\<Union>p \<in> set (key_components sep cfg parts). set p) \<union> {CHR ''/''}"
    unfolding build_s3_key_join using set_join_slash by blast
  then obtain p where p: "p \<in> set (key_components sep cfg parts)" "sep \<in> set p"
    using assms(1) by auto
  then have "p = strip_slash (S3_PREFIX cfg) \<or> p \<in> set (cleaned_segments sep parts)"
    by (auto simp: key_components_def split: if_splits)
  then show False
    using p(2) assms set_strip_slash [of "S3_PREFIX cfg"] cleaned_segments_no_sep [of sep p parts]
    by blast
qed

lemma build_s3_key_Nil_iff:
  "build_s3_key sep cfg parts = [] \<longleftrightarrow> key_components sep cfg parts = []"
  unfolding build_s3_key_join
  by (rule join_slash_eq_Nil) (simp add: key_components_def)

lemma build_s3_key_no_edge_slash:
  "\<not> leading_slash (build_s3_key sep cfg parts) \<and> \<not> trailing_slash (build_s3_key sep cfg parts)"
proof (cases "build_s3_key sep cfg parts")
  case Nil
  then show ?thesis by (simp add: leading_slash_def trailing_slash_def)
next
  case (Cons c t)
  then have ne: "build_s3_key sep cfg parts \<noteq> []" by simp
  have l: "\<And>k. k \<noteq> [] \<Longrightarrow> leading_slash k \<longleftrightarrow> hd k = CHR ''/''"
    by (simp add: leading_slash_def split: list.splits)
  have t: "\<And>k. k \<noteq> [] \<Longrightarrow> trailing_slash k \<longleftrightarrow> last k = CHR ''/''"
    by (simp add: trailing_slash_def l hd_rev)
  show ?thesis using build_s3_key_edges [OF ne] l [OF ne] t [OF ne] by simp
qed

lemma build_s3_key_double_slash:
  "double_slash (build_s3_key sep cfg parts)
     \<longleftrightarrow> (\<exists>p \<in> set (key_components sep cfg parts). double_slash p)"
proof (cases "build_s3_key sep cfg parts = []")
  case True
  then show ?thesis using build_s3_key_Nil_iff [of sep cfg parts] by simp
next
  case False
  have k: "[] \<in> set (split_slash (build_s3_key sep cfg parts))
             \<longleftrightarrow> double_slash (build_s3_key sep cfg parts)"
    using False build_s3_key_edges [OF False] by (simp add: empty_segment_iff)
  have c: "\<And>p. p \<in> set (key_components sep cfg parts) \<Longrightarrow>
             [] \<in> set (split_slash p) \<longleftrightarrow> double_slash p"
    using key_components_props by (simp add: empty_segment_iff)
  have "[] \<in> set (split_slash (build_s3_key sep cfg parts))
          \<longleftrightarrow> (\<exists>p \<in> set (key_components sep cfg parts). [] \<in> set (split_slash p))"
    by (simp add: build_s3_key_split [OF False])
  then show ?thesis using k c by blast
qed

lemma build_s3_key_empty_segment:
  assumes "build_s3_key sep cfg parts \<noteq> []"
  shows "[] \<in> set (split_slash (build_s3_key sep cfg parts))
           \<longleftrightarrow> double_slash (build_s3_key sep cfg parts)"
  using assms build_s3_key_edges [OF assms] by (simp add: empty_segment_iff)

text \<open>
  Claim C3, as amended. For every list of segments, \<^verbatim>\<open>build_s3_key\<close> drops the empty
  segments, replaces every path separator in a segment by a slash, strips the slashes at
  both ends of each segment, drops the segments that are empty after that, and joins the
  stripped prefix (unless it is empty) and the cleaned segments with single slashes. Where
  the separator is not the slash, no cleaned segment contains it, and the key contains it
  only if the prefix does (the prefix is stripped, its separators are not replaced). The
  key never starts or ends with a slash. It is empty exactly when the stripped prefix is
  empty and no segment is left. It contains two adjacent slashes exactly when the stripped
  prefix or a cleaned segment does (slashes inside are kept as they are), and a key that
  is not empty has an empty segment exactly when it contains two adjacent slashes. With
  prefix \<^verbatim>\<open>deepwiki\<close>, the segments \<^verbatim>\<open>"a", "", "b/", "/c"\<close> give \<^verbatim>\<open>deepwiki/a/b/c\<close> (on POSIX
  and on Windows), two segments written with backslashes (\<open>a\<close>, backslash, \<open>b\<close>; and
  backslash, \<open>c\<close>, backslash) give the same key on Windows, and no segment gives
  \<^verbatim>\<open>deepwiki\<close>.
\<close>

theorem build_s3_key_normalised:
  "build_s3_key sep cfg parts = join_slash (key_components sep cfg parts)
   \<and> \<not> leading_slash (build_s3_key sep cfg parts)
   \<and> \<not> trailing_slash (build_s3_key sep cfg parts)
   \<and> (build_s3_key sep cfg parts = [] \<longleftrightarrow> key_components sep cfg parts = [])
   \<and> (double_slash (build_s3_key sep cfg parts)
        \<longleftrightarrow> (\<exists>p \<in> set (key_components sep cfg parts). double_slash p))
   \<and> (build_s3_key sep cfg parts \<noteq> [] \<longrightarrow>
        ([] \<in> set (split_slash (build_s3_key sep cfg parts))
         \<longleftrightarrow> double_slash (build_s3_key sep cfg parts)))
   \<and> (sep \<noteq> CHR ''/'' \<longrightarrow> (\<forall>p \<in> set (cleaned_segments sep parts). sep \<notin> set p))
   \<and> (sep \<noteq> CHR ''/'' \<and> sep \<notin> set (S3_PREFIX cfg) \<longrightarrow>
        sep \<notin> set (build_s3_key sep cfg parts))
   \<and> build_s3_key (CHR ''/'') (cfg\<lparr>S3_PREFIX := ''deepwiki''\<rparr>) [''a'', '''', ''b/'', ''/c'']
       = ''deepwiki/a/b/c''
   \<and> build_s3_key (CHR 0x5C) (cfg\<lparr>S3_PREFIX := ''deepwiki''\<rparr>) [''a'', '''', ''b/'', ''/c'']
       = ''deepwiki/a/b/c''
   \<and> build_s3_key (CHR 0x5C) (cfg\<lparr>S3_PREFIX := ''deepwiki''\<rparr>)
        [CHR ''a'' # CHR 0x5C # ''b'', CHR 0x5C # CHR ''c'' # [CHR 0x5C]]
       = ''deepwiki/a/b/c''
   \<and> build_s3_key sep (cfg\<lparr>S3_PREFIX := ''deepwiki''\<rparr>) [] = ''deepwiki''"
proof -
  have e1: "build_s3_key (CHR ''/'') (cfg\<lparr>S3_PREFIX := ''deepwiki''\<rparr>) [''a'', '''', ''b/'', ''/c'']
       = ''deepwiki/a/b/c''"
    by (simp add: build_s3_key_def strip_slash_def replace_sep_def)
  have e2: "build_s3_key (CHR 0x5C) (cfg\<lparr>S3_PREFIX := ''deepwiki''\<rparr>) [''a'', '''', ''b/'', ''/c'']
       = ''deepwiki/a/b/c''"
    by (simp add: build_s3_key_def strip_slash_def replace_sep_def)
  have e3: "build_s3_key (CHR 0x5C) (cfg\<lparr>S3_PREFIX := ''deepwiki''\<rparr>)
        [CHR ''a'' # CHR 0x5C # ''b'', CHR 0x5C # CHR ''c'' # [CHR 0x5C]]
       = ''deepwiki/a/b/c''"
    by (simp add: build_s3_key_def strip_slash_def replace_sep_def)
  have e4: "build_s3_key sep (cfg\<lparr>S3_PREFIX := ''deepwiki''\<rparr>) [] = ''deepwiki''"
    by (simp add: build_s3_key_def strip_slash_def)
  have s: "sep \<noteq> CHR ''/'' \<longrightarrow> (\<forall>p \<in> set (cleaned_segments sep parts). sep \<notin> set p)"
    using cleaned_segments_no_sep by blast
  have k: "sep \<noteq> CHR ''/'' \<and> sep \<notin> set (S3_PREFIX cfg) \<longrightarrow>
        sep \<notin> set (build_s3_key sep cfg parts)"
    using build_s3_key_no_sep by blast
  have g: "build_s3_key sep cfg parts \<noteq> [] \<longrightarrow>
        ([] \<in> set (split_slash (build_s3_key sep cfg parts))
         \<longleftrightarrow> double_slash (build_s3_key sep cfg parts))"
    using build_s3_key_empty_segment by blast
  show ?thesis
    using build_s3_key_join [of sep cfg parts] build_s3_key_no_edge_slash [of sep cfg parts]
      build_s3_key_Nil_iff [of sep cfg parts] build_s3_key_double_slash [of sep cfg parts]
      g s k e1 e2 e3 e4
    by (intro conjI) blast+
qed

text \<open>
  The amended claim C3 on Windows, at a prefix and segments that need replacing and
  stripping.
\<close>

theorem build_s3_key_normalised_witness:
  "CHR 0x5C \<noteq> CHR ''/'' \<and> CHR 0x5C \<notin> set ''/wiki/''
   \<and> build_s3_key (CHR 0x5C) \<lparr>STORAGE_BACKEND = ''local'', S3_ENABLED_ENV = False,
        S3_BUCKET = None, S3_PREFIX = ''/wiki/''\<rparr>
        [CHR ''a'' # [CHR 0x5C], '''', CHR ''x'' # CHR 0x5C # ''y'', ''/'']
       = ''wiki/a/x/y''
   \<and> cleaned_segments (CHR 0x5C) [CHR ''a'' # [CHR 0x5C], '''', CHR ''x'' # CHR 0x5C # ''y'', ''/'']
       = [''a'', ''x/y'']
   \<and> CHR 0x5C \<notin> set ''wiki/a/x/y''
   \<and> \<not> leading_slash ''wiki/a/x/y'' \<and> \<not> trailing_slash ''wiki/a/x/y''
   \<and> \<not> double_slash ''wiki/a/x/y''
   \<and> [] \<notin> set (split_slash ''wiki/a/x/y'')"
  using build_s3_key_normalised [of "CHR 0x5C" "\<lparr>STORAGE_BACKEND = ''local'', S3_ENABLED_ENV = False,
        S3_BUCKET = None, S3_PREFIX = ''/wiki/''\<rparr>"
        "[CHR ''a'' # [CHR 0x5C], '''', CHR ''x'' # CHR 0x5C # ''y'', ''/'']"]
  by (simp add: key_components_def cleaned_segments_def strip_slash_def
        leading_slash_def trailing_slash_def)

text \<open>
  Claim C3 as stated fails: the key built from the single segment \<^verbatim>\<open>a//b\<close> is
  \<^verbatim>\<open>deepwiki/a//b\<close>, which has an empty segment.
\<close>

theorem build_s3_key_empty_segment_counterexample:
  "[] \<in> set (split_slash (build_s3_key (CHR ''/'') \<lparr>STORAGE_BACKEND = ''local'',
       S3_ENABLED_ENV = False, S3_BUCKET = None, S3_PREFIX = ''deepwiki''\<rparr> [''a//b'']))"
  by (simp add: build_s3_key_def strip_slash_def replace_sep_def)

text \<open>
  Claim C9. When the configured prefix is empty or consists of slashes only, the key is the
  cleaned segments joined with slashes, it has no leading slash, and without segments it is
  the empty string.
\<close>

theorem build_s3_key_blank_prefix:
  assumes "set (S3_PREFIX cfg) \<subseteq> {CHR ''/''}"
  shows "build_s3_key sep cfg parts = join_slash (cleaned_segments sep parts)
         \<and> (build_s3_key sep cfg parts \<noteq> [] \<longrightarrow> hd (build_s3_key sep cfg parts) \<noteq> CHR ''/'')
         \<and> build_s3_key sep cfg [] = []"
proof -
  have p: "strip_slash (S3_PREFIX cfg) = []" using assms by (rule strip_slash_eq_Nil)
  have "build_s3_key sep cfg parts = join_slash (cleaned_segments sep parts)"
    by (simp add: build_s3_key_def p clean_loop_eq)
  moreover have "build_s3_key sep cfg [] = []"
    by (simp add: build_s3_key_def p)
  ultimately show ?thesis using build_s3_key_edges [of sep cfg parts] by blast
qed

text \<open>Claim C9 at the prefixes \<^verbatim>\<open>//\<close> and the empty string.\<close>

theorem build_s3_key_blank_prefix_witness:
  "set ''//'' \<subseteq> {CHR ''/''}
   \<and> build_s3_key (CHR ''/'') \<lparr>STORAGE_BACKEND = ''s3'', S3_ENABLED_ENV = False,
         S3_BUCKET = Some ''b'', S3_PREFIX = ''//''\<rparr> [''a'', ''/b/''] = ''a/b''
   \<and> build_s3_key (CHR ''/'') \<lparr>STORAGE_BACKEND = ''s3'', S3_ENABLED_ENV = False,
         S3_BUCKET = Some ''b'', S3_PREFIX = ''''\<rparr> [''a'', ''/b/''] = ''a/b''
   \<and> build_s3_key (CHR ''/'') \<lparr>STORAGE_BACKEND = ''s3'', S3_ENABLED_ENV = False,
         S3_BUCKET = Some ''b'', S3_PREFIX = ''//''\<rparr> [] = ''''"
  using build_s3_key_blank_prefix [of "\<lparr>STORAGE_BACKEND = ''s3'', S3_ENABLED_ENV = False,
         S3_BUCKET = Some ''b'', S3_PREFIX = ''//''\<rparr>" "CHR ''/''" "[''a'', ''/b/'']"]
     build_s3_key_blank_prefix [of "\<lparr>STORAGE_BACKEND = ''s3'', S3_ENABLED_ENV = False,
         S3_BUCKET = Some ''b'', S3_PREFIX = ''''\<rparr>" "CHR ''/''" "[''a'', ''/b/'']"]
  by (simp add: cleaned_segments_def strip_slash_def replace_sep_def)

section \<open>Properties of the operations\<close>

lemmas prog_defs =
  and_then_def try_except_def request_def s3_client_def except_ClientError_def
  except_Exception_def reraise_def logger_error_def makedirs_def client_download_file_def
  Let_def

lemma makedirs_chain_leaf [simp]: "d \<in> set (makedirs_chain dn ex n d)"
  by (cases n) (simp_all add: Let_def)

lemma makedirs_chain_not_Nil [simp]: "makedirs_chain dn ex n d \<noteq> []"
  by (cases n) (simp_all add: Let_def)

lemma posix_dirname_examples:
  "posix_dirname ''cache/k.json'' = ''cache''"
  "posix_dirname ''cache'' = ''''"
  "posix_dirname ''a/b/k.json'' = ''a/b''"
  "posix_dirname ''a/b'' = ''a''"
  "posix_dirname ''a'' = ''''"
  by (simp_all add: posix_dirname_def)

lemma makedirs_chain_examples:
  "makedirs_chain posix_dirname ex (length ''cache'') ''cache'' = [''cache'']"
  "\<not> ex ''a'' \<Longrightarrow> makedirs_chain posix_dirname ex (length ''a/b'') ''a/b'' = [''a'', ''a/b'']"
  by (simp_all add: posix_dirname_examples)

lemma s3_enabled_iff:
  "s3_enabled cfg \<longleftrightarrow>
     S3_BUCKET cfg \<noteq> None \<and> S3_BUCKET cfg \<noteq> Some []
     \<and> (STORAGE_BACKEND cfg = ''s3'' \<or> S3_ENABLED_ENV cfg)"
  by (auto simp: s3_enabled_def truthy_def split: option.splits)

text \<open>
  Claim C2. When the store is not enabled (no bucket, an empty bucket name, or neither the
  backend \<^verbatim>\<open>s3\<close> nor the enable flag), each of the seven remote operations returns its
  empty result (false, \<open>None\<close>, the empty list) and leaves the state as it is: no external
  call is made, nothing is logged, nothing is raised.
\<close>

theorem disabled_store_is_noop:
  assumes "\<not> s3_enabled cfg"
  shows "s3_object_exists cfg env key s = (Returns False, s)
       \<and> s3_read_json cfg env key s = (Returns None, s)
       \<and> s3_write_json cfg env key doc s = (Returns False, s)
       \<and> s3_download_file cfg env key local_path s = (Returns False, s)
       \<and> s3_upload_file cfg env local_path key s = (Returns False, s)
       \<and> s3_delete_object cfg env key s = (Returns False, s)
       \<and> s3_list_objects cfg env prefix s = (Returns [], s)"
  using assms
  by (simp add: s3_object_exists_def s3_read_json_def s3_write_json_def s3_download_file_def
        s3_upload_file_def s3_delete_object_def s3_list_objects_def)

text \<open>Claim C2 without a bucket, and with a bucket but the local backend.\<close>

theorem disabled_store_is_noop_witness:
  "\<not> s3_enabled cfg_local
   \<and> \<not> s3_enabled (cfg_s3\<lparr>STORAGE_BACKEND := ''local''\<rparr>)
   \<and> s3_object_exists cfg_local env_ok ''k'' s_empty = (Returns False, s_empty)
   \<and> s3_read_json cfg_local env_ok ''k'' s_empty = (Returns None, s_empty)
   \<and> s3_write_json cfg_local env_ok ''k'' ''{}'' s_empty = (Returns False, s_empty)
   \<and> s3_download_file cfg_local env_ok ''k'' ''cache/k.json'' s_empty = (Returns False, s_empty)
   \<and> s3_upload_file cfg_local env_ok ''cache/k.json'' ''k'' s_empty = (Returns False, s_empty)
   \<and> s3_delete_object cfg_local env_ok ''k'' s_empty = (Returns False, s_empty)
   \<and> s3_list_objects cfg_local env_ok ''p'' s_empty = (Returns [], s_empty)
   \<and> s3_list_objects (cfg_s3\<lparr>STORAGE_BACKEND := ''local''\<rparr>) env_ok ''p'' s_empty
       = (Returns [], s_empty)"
proof -
  have a: "\<not> s3_enabled cfg_local"
    by (simp add: s3_enabled_def truthy_def cfg_local_def)
  have b: "\<not> s3_enabled (cfg_s3\<lparr>STORAGE_BACKEND := ''local''\<rparr>)"
    by (simp add: s3_enabled_def truthy_def cfg_s3_def)
  show ?thesis
    using a b
      disabled_store_is_noop [OF a, of env_ok "''k''" s_empty "''{}''" "''cache/k.json''" "''p''"]
      disabled_store_is_noop [OF b, of env_ok "''k''" s_empty "''{}''" "''cache/k.json''" "''p''"]
    by simp
qed

lemma s3_object_exists_present:
  "s3_enabled cfg \<Longrightarrow> boto3_client env = Returns () \<Longrightarrow>
   head_object env (S3_BUCKET cfg) key = Returns () \<Longrightarrow>
   s3_object_exists cfg env key s
     = (Returns True, s\<lparr>trace := trace s @ [HeadObject (S3_BUCKET cfg) key]\<rparr>)"
  by (simp add: s3_object_exists_def prog_defs)

lemma s3_object_exists_absent:
  "s3_enabled cfg \<Longrightarrow> boto3_client env = Returns () \<Longrightarrow>
   head_object env (S3_BUCKET cfg) key = Raises e \<Longrightarrow> is_not_found e \<Longrightarrow>
   s3_object_exists cfg env key s
     = (Returns False, s\<lparr>trace := trace s @ [HeadObject (S3_BUCKET cfg) key]\<rparr>)"
  by (cases e) (simp_all add: s3_object_exists_def prog_defs)

text \<open>
  Claim C4. If the local path exists, \<^verbatim>\<open>ensure_local_file\<close> returns true and leaves the
  state as it is (no remote call). Otherwise, if the store is disabled, it returns false,
  again without any call. Otherwise it asks \<^verbatim>\<open>s3_object_exists\<close>: when that returns true
  (the \<^verbatim>\<open>head_object\<close> request succeeds) the result is the result of \<^verbatim>\<open>s3_download_file\<close>,
  and when it returns false (the request answers "not found") the result is false.
\<close>

theorem ensure_local_file_cases:
  "(os_path_exists local_path s \<longrightarrow>
      ensure_local_file cfg env local_path key s = (Returns True, s))
   \<and> (\<not> os_path_exists local_path s \<and> \<not> s3_enabled cfg \<longrightarrow>
      ensure_local_file cfg env local_path key s = (Returns False, s))
   \<and> (\<not> os_path_exists local_path s \<and> s3_enabled cfg
        \<and> s3_object_exists cfg env key s = (Returns True, s1) \<longrightarrow>
      ensure_local_file cfg env local_path key s = s3_download_file cfg env key local_path s1)
   \<and> (\<not> os_path_exists local_path s \<and> s3_enabled cfg
        \<and> s3_object_exists cfg env key s = (Returns False, s1) \<longrightarrow>
      ensure_local_file cfg env local_path key s = (Returns False, s1))
   \<and> (\<not> os_path_exists local_path s \<and> s3_enabled cfg \<and> boto3_client env = Returns ()
        \<and> head_object env (S3_BUCKET cfg) key = Returns () \<longrightarrow>
      ensure_local_file cfg env local_path key s
        = s3_download_file cfg env key local_path
            (s\<lparr>trace := trace s @ [HeadObject (S3_BUCKET cfg) key]\<rparr>))
   \<and> (\<not> os_path_exists local_path s \<and> s3_enabled cfg \<and> boto3_client env = Returns ()
        \<and> head_object env (S3_BUCKET cfg) key = Raises e \<and> is_not_found e \<longrightarrow>
      ensure_local_file cfg env local_path key s
        = (Returns False, s\<lparr>trace := trace s @ [HeadObject (S3_BUCKET cfg) key]\<rparr>))"
proof -
  have a: "\<not> os_path_exists local_path s \<and> s3_enabled cfg \<and> boto3_client env = Returns ()
        \<and> head_object env (S3_BUCKET cfg) key = Returns () \<longrightarrow>
      ensure_local_file cfg env local_path key s
        = s3_download_file cfg env key local_path
            (s\<lparr>trace := trace s @ [HeadObject (S3_BUCKET cfg) key]\<rparr>)"
    by (simp add: ensure_local_file_def and_then_def s3_object_exists_present)
  have b: "\<not> os_path_exists local_path s \<and> s3_enabled cfg \<and> boto3_client env = Returns ()
        \<and> head_object env (S3_BUCKET cfg) key = Raises e \<and> is_not_found e \<longrightarrow>
      ensure_local_file cfg env local_path key s
        = (Returns False, s\<lparr>trace := trace s @ [HeadObject (S3_BUCKET cfg) key]\<rparr>)"
    by (simp add: ensure_local_file_def and_then_def s3_object_exists_absent)
  have c: "(os_path_exists local_path s \<longrightarrow>
      ensure_local_file cfg env local_path key s = (Returns True, s))
   \<and> (\<not> os_path_exists local_path s \<and> \<not> s3_enabled cfg \<longrightarrow>
      ensure_local_file cfg env local_path key s = (Returns False, s))
   \<and> (\<not> os_path_exists local_path s \<and> s3_enabled cfg
        \<and> s3_object_exists cfg env key s = (Returns True, s1) \<longrightarrow>
      ensure_local_file cfg env local_path key s = s3_download_file cfg env key local_path s1)
   \<and> (\<not> os_path_exists local_path s \<and> s3_enabled cfg
        \<and> s3_object_exists cfg env key s = (Returns False, s1) \<longrightarrow>
      ensure_local_file cfg env local_path key s = (Returns False, s1))"
    by (simp add: ensure_local_file_def and_then_def)
  from a b c show ?thesis by blast
qed

lemma s3_enabled_cfg_s3: "s3_enabled cfg_s3"
  by (simp add: s3_enabled_def truthy_def cfg_s3_def)

text \<open>
  Claim C4 at a path that exists, with the store disabled, with the object present, and
  with the object absent.
\<close>

theorem ensure_local_file_cases_witness:
  "ensure_local_file cfg_local env_ok ''cache/k.json'' ''k'' (s_empty\<lparr>files := {''cache/k.json''}\<rparr>)
     = (Returns True, s_empty\<lparr>files := {''cache/k.json''}\<rparr>)
   \<and> ensure_local_file cfg_local env_ok ''cache/k.json'' ''k'' s_empty = (Returns False, s_empty)
   \<and> ensure_local_file cfg_s3 env_ok ''cache/k.json'' ''k'' s_empty
       = (Returns True,
          \<lparr>dirs = {''cache''}, files = {''cache/k.json''}, error_log = [],
           trace = [HeadObject (Some ''bucket'') ''k'', Makedirs ''cache'',
                    DownloadFile (Some ''bucket'') ''k'' ''cache/k.json'']\<rparr>)
   \<and> ensure_local_file cfg_s3
         (env_ok\<lparr>head_object := \<lambda>b k. Raises (ClientError (Some ''404''))\<rparr>)
         ''cache/k.json'' ''k'' s_empty
       = (Returns False,
          \<lparr>dirs = {}, files = {}, error_log = [], trace = [HeadObject (Some ''bucket'') ''k'']\<rparr>)"
proof -
  have x: "os_path_exists ''cache/k.json'' (s_empty\<lparr>files := {''cache/k.json''}\<rparr>)"
    by (simp add: os_path_exists_def)
  have n: "\<not> os_path_exists ''cache/k.json'' s_empty"
    by (simp add: os_path_exists_def s_empty_def)
  have d: "\<not> s3_enabled cfg_local"
    by (simp add: s3_enabled_def truthy_def cfg_local_def)
  have c: "boto3_client env_ok = Returns ()"
    "head_object env_ok (S3_BUCKET cfg_s3) ''k'' = Returns ()"
    by (simp_all add: env_ok_def)
  have c': "boto3_client (env_ok\<lparr>head_object := \<lambda>b k. Raises (ClientError (Some ''404''))\<rparr>)
              = Returns ()"
    "head_object (env_ok\<lparr>head_object := \<lambda>b k. Raises (ClientError (Some ''404''))\<rparr>)
        (S3_BUCKET cfg_s3) ''k'' = Raises (ClientError (Some ''404''))"
    "is_not_found (ClientError (Some ''404''))"
    by (simp_all add: env_ok_def not_found_code_def)
  have dl: "s3_download_file cfg_s3 env_ok ''k'' ''cache/k.json''
             (s_empty\<lparr>trace := trace s_empty @ [HeadObject (S3_BUCKET cfg_s3) ''k'']\<rparr>)
            = (Returns True,
          \<lparr>dirs = {''cache''}, files = {''cache/k.json''}, error_log = [],
           trace = [HeadObject (Some ''bucket'') ''k'', Makedirs ''cache'',
                    DownloadFile (Some ''bucket'') ''k'' ''cache/k.json'']\<rparr>)"
    by (simp add: s3_download_file_def s3_enabled_def truthy_def prog_defs env_ok_def
          posix_dirname_examples makedirs_chain_examples s_empty_def cfg_s3_def)
  show ?thesis
    using x n d c c' s3_enabled_cfg_s3 dl
      ensure_local_file_cases [of "''cache/k.json''" "s_empty\<lparr>files := {''cache/k.json''}\<rparr>"
         cfg_local env_ok "''k''"]
      ensure_local_file_cases [of "''cache/k.json''" s_empty cfg_local env_ok "''k''"]
      ensure_local_file_cases [of "''cache/k.json''" s_empty cfg_s3 env_ok "''k''"]
      ensure_local_file_cases [of "''cache/k.json''" s_empty cfg_s3
         "env_ok\<lparr>head_object := \<lambda>b k. Raises (ClientError (Some ''404''))\<rparr>" "''k''" _
         "ClientError (Some ''404'')"]
    by (simp add: s_empty_def cfg_s3_def s3_enabled_def truthy_def)
qed

lemma entries_loop_ok:
  "\<forall>en \<in> set es. entry_Key en \<noteq> None \<Longrightarrow>
     entries_loop items es = Returns (items @ map listing_item es)"
  by (induction es arbitrary: items) (auto simp: listing_item_def)

lemma pages_loop_ok:
  "\<forall>pg \<in> set pages. \<forall>en \<in> set (page_entries pg). entry_Key en \<noteq> None \<Longrightarrow>
     pages_loop items pages None
       = Returns (items @ concat (map (\<lambda>pg. map listing_item (page_entries pg)) pages))"
  by (induction pages arbitrary: items) (simp_all add: entries_loop_ok)

text \<open>
  Claim C6. When the store is disabled the listing is empty. When it is enabled and the
  listing succeeds (the client is there, the paginator yields its pages without raising,
  every entry has its \<^verbatim>\<open>Key\<close>), the result is the concatenation, in page order, of the
  entries of all pages, each as an item with the key, the optional last-modified timestamp
  and the size.
\<close>

theorem s3_list_objects_all_pages:
  "(\<not> s3_enabled cfg \<longrightarrow> s3_list_objects cfg env prefix s = (Returns [], s))
   \<and> (s3_enabled cfg \<and> boto3_client env = Returns ()
        \<and> paginate env (S3_BUCKET cfg) prefix = (pages, None)
        \<and> (\<forall>pg \<in> set pages. \<forall>en \<in> set (page_entries pg). entry_Key en \<noteq> None) \<longrightarrow>
      s3_list_objects cfg env prefix s
        = (Returns (concat (map (\<lambda>pg. map listing_item (page_entries pg)) pages)),
           s\<lparr>trace := trace s @ [ListObjectsV2 (S3_BUCKET cfg) prefix]\<rparr>))"
  by (simp add: s3_list_objects_def and_then_def s3_client_def pages_loop_ok)


text \<open>Claim C6 on three pages, one of them without \<^verbatim>\<open>Contents\<close>.\<close>

theorem s3_list_objects_all_pages_witness:
  "s3_list_objects cfg_local (env_ok\<lparr>paginate := \<lambda>b p. (pages_example, None)\<rparr>) ''p/'' s_empty
     = (Returns [], s_empty)
   \<and> s3_list_objects cfg_s3 (env_ok\<lparr>paginate := \<lambda>b p. (pages_example, None)\<rparr>) ''p/'' s_empty
     = (Returns [\<lparr>item_key = ''p/a'', item_last_modified = Some 1700000000, item_size = 12\<rparr>,
                 \<lparr>item_key = ''p/b'', item_last_modified = None, item_size = 0\<rparr>,
                 \<lparr>item_key = ''p/c'', item_last_modified = Some 1700000001, item_size = 0\<rparr>],
        s_empty\<lparr>trace := [ListObjectsV2 (Some ''bucket'') ''p/'']\<rparr>)"
proof -
  have d: "\<not> s3_enabled cfg_local"
    by (simp add: s3_enabled_def truthy_def cfg_local_def)
  have c: "boto3_client (env_ok\<lparr>paginate := \<lambda>b p. (pages_example, None)\<rparr>) = Returns ()"
    "paginate (env_ok\<lparr>paginate := \<lambda>b p. (pages_example, None)\<rparr>) (S3_BUCKET cfg_s3) ''p/''
       = (pages_example, None)"
    by (simp_all add: env_ok_def)
  have k: "\<forall>pg \<in> set pages_example. \<forall>en \<in> set (page_entries pg). entry_Key en \<noteq> None"
    by (simp add: pages_example_def page_entries_def)
  show ?thesis
    using d c k s3_enabled_cfg_s3
      s3_list_objects_all_pages [of cfg_local
        "env_ok\<lparr>paginate := \<lambda>b p. (pages_example, None)\<rparr>" "''p/''" s_empty pages_example]
      s3_list_objects_all_pages [of cfg_s3
        "env_ok\<lparr>paginate := \<lambda>b p. (pages_example, None)\<rparr>" "''p/''" s_empty pages_example]
    by (simp add: pages_example_def page_entries_def listing_item_def s_empty_def cfg_s3_def
          s3_enabled_def truthy_def)
qed

lemma s3_download_file_returns:
  "\<exists>b. fst (s3_download_file cfg env key local_path s) = Returns b"
  by (auto simp: s3_download_file_def prog_defs split: outcome.splits exn.splits)

lemma s3_download_file_trace:
  assumes "s3_enabled cfg"
  shows "trace (snd (s3_download_file cfg env key local_path s))
           = trace s @ [Makedirs (os_path_dirname env local_path)]
         \<or> (os_makedirs env (os_path_dirname env local_path) = Returns ()
            \<and> os_path_dirname env local_path \<in> dirs (snd (s3_download_file cfg env key local_path s))
            \<and> trace (snd (s3_download_file cfg env key local_path s))
                = trace s @ [Makedirs (os_path_dirname env local_path),
                             DownloadFile (S3_BUCKET cfg) key local_path])"
  using assms
  by (auto simp: s3_download_file_def prog_defs split: outcome.splits exn.splits)

lemma s3_download_file_not_found:
  assumes "s3_enabled cfg"
    and "os_makedirs env (os_path_dirname env local_path) = Returns ()"
    and "boto3_client env = Returns ()"
    and "download_file env (S3_BUCKET cfg) key local_path = Raises e"
    and "is_not_found e"
  shows "s3_download_file cfg env key local_path s
           = (Returns False,
              s\<lparr>dirs := dirs s
                  \<union> set (makedirs_chain (os_path_dirname env) (\<lambda>p. os_path_exists p s)
                           (length (os_path_dirname env local_path))
                           (os_path_dirname env local_path)),
                trace := trace s @ [Makedirs (os_path_dirname env local_path),
                                    DownloadFile (S3_BUCKET cfg) key local_path]\<rparr>)"
  using assms by (cases e) (simp_all add: s3_download_file_def prog_defs)

lemma s3_download_file_error:
  assumes "s3_enabled cfg"
    and "os_makedirs env (os_path_dirname env local_path) = Raises e
         \<or> os_makedirs env (os_path_dirname env local_path) = Returns ()
           \<and> (boto3_client env = Raises e
              \<or> boto3_client env = Returns ()
                \<and> download_file env (S3_BUCKET cfg) key local_path = Raises e)"
    and "\<not> is_not_found e"
  shows "fst (s3_download_file cfg env key local_path s) = Returns False
         \<and> error_log (snd (s3_download_file cfg env key local_path s))
             = error_log s @ [LogError ''S3 download_file failed for %s: %s'' key e]"
  using assms by (cases e) (auto simp: s3_download_file_def prog_defs)

lemma s3_download_file_success:
  assumes "s3_enabled cfg"
    and "os_makedirs env (os_path_dirname env local_path) = Returns ()"
    and "boto3_client env = Returns ()"
    and "download_file env (S3_BUCKET cfg) key local_path = Returns ()"
  shows "s3_download_file cfg env key local_path s
           = (Returns True,
              s\<lparr>dirs := dirs s
                  \<union> set (makedirs_chain (os_path_dirname env) (\<lambda>p. os_path_exists p s)
                           (length (os_path_dirname env local_path))
                           (os_path_dirname env local_path)),
                files := insert local_path (files s),
                trace := trace s @ [Makedirs (os_path_dirname env local_path),
                                    DownloadFile (S3_BUCKET cfg) key local_path]\<rparr>)"
  using assms by (simp add: s3_download_file_def prog_defs)

text \<open>
  Claim C7. When the store is enabled, \<^verbatim>\<open>s3_download_file\<close> always returns a boolean. Its
  first external call is \<^verbatim>\<open>os.makedirs\<close> on the parent directory of the destination, and
  the download is requested only after that call has succeeded, so that the directory is
  there before the file is written. A "not found" answer of the download gives false and
  no log entry; any other error (of \<^verbatim>\<open>os.makedirs\<close>, of the client, or of the download)
  is logged and gives false; a download that succeeds gives true, and the file is there.
\<close>

theorem s3_download_file_outcomes:
  assumes "s3_enabled cfg"
  shows "(\<exists>b. fst (s3_download_file cfg env key local_path s) = Returns b)
    \<and> (trace (snd (s3_download_file cfg env key local_path s))
           = trace s @ [Makedirs (os_path_dirname env local_path)]
       \<or> (os_makedirs env (os_path_dirname env local_path) = Returns ()
          \<and> os_path_dirname env local_path
               \<in> dirs (snd (s3_download_file cfg env key local_path s))
          \<and> trace (snd (s3_download_file cfg env key local_path s))
              = trace s @ [Makedirs (os_path_dirname env local_path),
                           DownloadFile (S3_BUCKET cfg) key local_path]))
    \<and> (os_makedirs env (os_path_dirname env local_path) = Returns ()
        \<and> boto3_client env = Returns ()
        \<and> download_file env (S3_BUCKET cfg) key local_path = Raises e
        \<and> is_not_found e \<longrightarrow>
          fst (s3_download_file cfg env key local_path s) = Returns False
          \<and> error_log (snd (s3_download_file cfg env key local_path s)) = error_log s)
    \<and> ((os_makedirs env (os_path_dirname env local_path) = Raises e
         \<or> os_makedirs env (os_path_dirname env local_path) = Returns ()
           \<and> (boto3_client env = Raises e
              \<or> boto3_client env = Returns ()
                \<and> download_file env (S3_BUCKET cfg) key local_path = Raises e))
        \<and> \<not> is_not_found e \<longrightarrow>
          fst (s3_download_file cfg env key local_path s) = Returns False
          \<and> error_log (snd (s3_download_file cfg env key local_path s))
              = error_log s @ [LogError ''S3 download_file failed for %s: %s'' key e])
    \<and> (os_makedirs env (os_path_dirname env local_path) = Returns ()
        \<and> boto3_client env = Returns ()
        \<and> download_file env (S3_BUCKET cfg) key local_path = Returns () \<longrightarrow>
          fst (s3_download_file cfg env key local_path s) = Returns True
          \<and> local_path \<in> files (snd (s3_download_file cfg env key local_path s)))"
proof -
  have nf: "os_makedirs env (os_path_dirname env local_path) = Returns ()
        \<and> boto3_client env = Returns ()
        \<and> download_file env (S3_BUCKET cfg) key local_path = Raises e
        \<and> is_not_found e \<longrightarrow>
          fst (s3_download_file cfg env key local_path s) = Returns False
          \<and> error_log (snd (s3_download_file cfg env key local_path s)) = error_log s"
    using assms by (simp add: s3_download_file_not_found)
  have ok: "os_makedirs env (os_path_dirname env local_path) = Returns ()
        \<and> boto3_client env = Returns ()
        \<and> download_file env (S3_BUCKET cfg) key local_path = Returns () \<longrightarrow>
          fst (s3_download_file cfg env key local_path s) = Returns True
          \<and> local_path \<in> files (snd (s3_download_file cfg env key local_path s))"
    using assms by (simp add: s3_download_file_success)
  show ?thesis
    using nf ok s3_download_file_returns [of cfg env key local_path s]
      s3_download_file_trace [OF assms, of env key local_path s]
      s3_download_file_error [OF assms, of env local_path e key s]
    by blast
qed

text \<open>
  Claim C7 at a download that succeeds, one that answers 404, and a parent directory that
  cannot be created.
\<close>

theorem s3_download_file_outcomes_witness:
  "s3_enabled cfg_s3
   \<and> fst (s3_download_file cfg_s3 env_ok ''k'' ''cache/k.json'' s_empty) = Returns True
   \<and> ''cache/k.json'' \<in> files (snd (s3_download_file cfg_s3 env_ok ''k'' ''cache/k.json'' s_empty))
   \<and> ''cache'' \<in> dirs (snd (s3_download_file cfg_s3 env_ok ''k'' ''cache/k.json'' s_empty))
   \<and> trace (snd (s3_download_file cfg_s3 env_ok ''k'' ''cache/k.json'' s_empty))
       = [Makedirs ''cache'', DownloadFile (Some ''bucket'') ''k'' ''cache/k.json'']
   \<and> fst (s3_download_file cfg_s3
            (env_ok\<lparr>download_file := \<lambda>b k p. Raises (ClientError (Some ''404''))\<rparr>)
            ''k'' ''cache/k.json'' s_empty) = Returns False
   \<and> error_log (snd (s3_download_file cfg_s3
            (env_ok\<lparr>download_file := \<lambda>b k p. Raises (ClientError (Some ''404''))\<rparr>)
            ''k'' ''cache/k.json'' s_empty)) = []
   \<and> fst (s3_download_file cfg_s3
            (env_ok\<lparr>os_makedirs := \<lambda>d. Raises (OtherException ''PermissionError'')\<rparr>)
            ''k'' ''cache/k.json'' s_empty) = Returns False
   \<and> error_log (snd (s3_download_file cfg_s3
            (env_ok\<lparr>os_makedirs := \<lambda>d. Raises (OtherException ''PermissionError'')\<rparr>)
            ''k'' ''cache/k.json'' s_empty))
       = [LogError ''S3 download_file failed for %s: %s'' ''k'' (OtherException ''PermissionError'')]"
  using s3_enabled_cfg_s3
    s3_download_file_outcomes [OF s3_enabled_cfg_s3, of env_ok "''k''" "''cache/k.json''" s_empty]
    s3_download_file_outcomes [OF s3_enabled_cfg_s3,
      of "env_ok\<lparr>download_file := \<lambda>b k p. Raises (ClientError (Some ''404''))\<rparr>"
         "''k''" "''cache/k.json''" s_empty "ClientError (Some ''404'')"]
    s3_download_file_outcomes [OF s3_enabled_cfg_s3,
      of "env_ok\<lparr>os_makedirs := \<lambda>d. Raises (OtherException ''PermissionError'')\<rparr>"
         "''k''" "''cache/k.json''" s_empty "OtherException ''PermissionError''"]
  by (simp add: s3_download_file_def prog_defs s3_enabled_def truthy_def env_ok_def
        posix_dirname_examples makedirs_chain_examples not_found_code_def s_empty_def cfg_s3_def)

text \<open>
  Claim C8. When the store is enabled: if the source path does not exist,
  \<^verbatim>\<open>s3_upload_file\<close> returns false and leaves the state as it is (no upload is attempted);
  if it exists and the upload succeeds, the result is true; if the client or the upload
  raises, the error is logged and the result is false.
\<close>

theorem s3_upload_file_outcomes:
  assumes "s3_enabled cfg"
  shows "(\<not> os_path_exists local_path s \<longrightarrow>
            s3_upload_file cfg env local_path key s = (Returns False, s))
    \<and> (os_path_exists local_path s \<and> boto3_client env = Returns ()
        \<and> upload_file env local_path (S3_BUCKET cfg) key = Returns () \<longrightarrow>
            s3_upload_file cfg env local_path key s
              = (Returns True, s\<lparr>trace := trace s @ [UploadFile local_path (S3_BUCKET cfg) key]\<rparr>))
    \<and> (os_path_exists local_path s
        \<and> (boto3_client env = Raises e
           \<or> boto3_client env = Returns ()
             \<and> upload_file env local_path (S3_BUCKET cfg) key = Raises e) \<longrightarrow>
            fst (s3_upload_file cfg env local_path key s) = Returns False
            \<and> error_log (snd (s3_upload_file cfg env local_path key s))
                = error_log s @ [LogError ''S3 upload_file failed for %s: %s'' key e])"
  using assms by (auto simp: s3_upload_file_def prog_defs)

text \<open>Claim C8 at a missing source, an upload that succeeds and one that is denied.\<close>

theorem s3_upload_file_outcomes_witness:
  "s3_enabled cfg_s3
   \<and> s3_upload_file cfg_s3 env_ok ''cache/k.json'' ''k'' s_empty = (Returns False, s_empty)
   \<and> s3_upload_file cfg_s3 env_ok ''cache/k.json'' ''k'' (s_empty\<lparr>files := {''cache/k.json''}\<rparr>)
       = (Returns True,
          \<lparr>dirs = {}, files = {''cache/k.json''}, error_log = [],
           trace = [UploadFile ''cache/k.json'' (Some ''bucket'') ''k'']\<rparr>)
   \<and> fst (s3_upload_file cfg_s3
            (env_ok\<lparr>upload_file := \<lambda>p b k. Raises (ClientError (Some ''AccessDenied''))\<rparr>)
            ''cache/k.json'' ''k'' (s_empty\<lparr>files := {''cache/k.json''}\<rparr>)) = Returns False
   \<and> error_log (snd (s3_upload_file cfg_s3
            (env_ok\<lparr>upload_file := \<lambda>p b k. Raises (ClientError (Some ''AccessDenied''))\<rparr>)
            ''cache/k.json'' ''k'' (s_empty\<lparr>files := {''cache/k.json''}\<rparr>)))
       = [LogError ''S3 upload_file failed for %s: %s'' ''k'' (ClientError (Some ''AccessDenied''))]"
  using s3_enabled_cfg_s3
    s3_upload_file_outcomes [OF s3_enabled_cfg_s3, of "''cache/k.json''" s_empty env_ok "''k''"]
    s3_upload_file_outcomes [OF s3_enabled_cfg_s3,
      of "''cache/k.json''" "s_empty\<lparr>files := {''cache/k.json''}\<rparr>" env_ok "''k''"]
    s3_upload_file_outcomes [OF s3_enabled_cfg_s3,
      of "''cache/k.json''" "s_empty\<lparr>files := {''cache/k.json''}\<rparr>"
         "env_ok\<lparr>upload_file := \<lambda>p b k. Raises (ClientError (Some ''AccessDenied''))\<rparr>" "''k''"
         "ClientError (Some ''AccessDenied'')"]
  by (simp add: s3_upload_file_def prog_defs s3_enabled_def truthy_def env_ok_def
        os_path_exists_def s_empty_def cfg_s3_def)

text \<open>
  Claim C10. The store is enabled, the parent directory of the destination does not exist
  yet and \<^verbatim>\<open>os.makedirs\<close> creates it, and the download answers "not found". Then
  \<^verbatim>\<open>s3_download_file\<close> returns false, the parent directory exists afterwards, and so does
  every ancestor of it that was missing (the directories \<^verbatim>\<open>os.makedirs\<close> made are the only
  change of the file system: the destination file is not written), nothing is logged, and
  the directories were created before the download was requested.
\<close>

theorem s3_download_file_leaves_directories:
  assumes "s3_enabled cfg"
    and "\<not> os_path_exists (os_path_dirname env local_path) s"
    and "os_makedirs env (os_path_dirname env local_path) = Returns ()"
    and "boto3_client env = Returns ()"
    and "download_file env (S3_BUCKET cfg) key local_path = Raises e"
    and "is_not_found e"
  shows "fst (s3_download_file cfg env key local_path s) = Returns False
    \<and> os_path_exists (os_path_dirname env local_path)
         (snd (s3_download_file cfg env key local_path s))
    \<and> (\<forall>d \<in> set (makedirs_chain (os_path_dirname env) (\<lambda>p. os_path_exists p s)
                     (length (os_path_dirname env local_path))
                     (os_path_dirname env local_path)).
          d \<in> dirs (snd (s3_download_file cfg env key local_path s)))
    \<and> dirs (snd (s3_download_file cfg env key local_path s))
        = dirs s
          \<union> set (makedirs_chain (os_path_dirname env) (\<lambda>p. os_path_exists p s)
                   (length (os_path_dirname env local_path))
                   (os_path_dirname env local_path))
    \<and> files (snd (s3_download_file cfg env key local_path s)) = files s
    \<and> error_log (snd (s3_download_file cfg env key local_path s)) = error_log s
    \<and> trace (snd (s3_download_file cfg env key local_path s))
        = trace s @ [Makedirs (os_path_dirname env local_path),
                     DownloadFile (S3_BUCKET cfg) key local_path]"
  using assms(2) s3_download_file_not_found [OF assms(1,3,4,5,6), of s]
  by (simp add: os_path_exists_def)

text \<open>
  Claim C10 at the destination \<^verbatim>\<open>a/b/k.json\<close> in an empty file system: both \<^verbatim>\<open>a\<close> and
  \<^verbatim>\<open>a/b\<close> are there afterwards, the file is not.
\<close>

theorem s3_download_file_leaves_directories_witness:
  "s3_enabled cfg_s3
   \<and> \<not> os_path_exists ''a/b'' s_empty
   \<and> is_not_found (ClientError (Some ''NoSuchKey''))
   \<and> fst (s3_download_file cfg_s3
        (env_ok\<lparr>download_file := \<lambda>b k p. Raises (ClientError (Some ''NoSuchKey''))\<rparr>)
        ''k'' ''a/b/k.json'' s_empty) = Returns False
   \<and> dirs (snd (s3_download_file cfg_s3
        (env_ok\<lparr>download_file := \<lambda>b k p. Raises (ClientError (Some ''NoSuchKey''))\<rparr>)
        ''k'' ''a/b/k.json'' s_empty)) = {''a'', ''a/b''}
   \<and> files (snd (s3_download_file cfg_s3
        (env_ok\<lparr>download_file := \<lambda>b k p. Raises (ClientError (Some ''NoSuchKey''))\<rparr>)
        ''k'' ''a/b/k.json'' s_empty)) = {}
   \<and> error_log (snd (s3_download_file cfg_s3
        (env_ok\<lparr>download_file := \<lambda>b k p. Raises (ClientError (Some ''NoSuchKey''))\<rparr>)
        ''k'' ''a/b/k.json'' s_empty)) = []
   \<and> trace (snd (s3_download_file cfg_s3
        (env_ok\<lparr>download_file := \<lambda>b k p. Raises (ClientError (Some ''NoSuchKey''))\<rparr>)
        ''k'' ''a/b/k.json'' s_empty))
       = [Makedirs ''a/b'', DownloadFile (Some ''bucket'') ''k'' ''a/b/k.json'']"
proof -
  let ?env = "env_ok\<lparr>download_file := \<lambda>b k p. Raises (ClientError (Some ''NoSuchKey''))\<rparr>"
  have d: "os_path_dirname ?env ''a/b/k.json'' = ''a/b''" "os_path_dirname ?env = posix_dirname"
    by (simp_all add: env_ok_def posix_dirname_examples)
  have a: "\<not> os_path_exists (os_path_dirname ?env ''a/b/k.json'') s_empty"
    by (simp add: d os_path_exists_def s_empty_def)
  have b: "os_makedirs ?env (os_path_dirname ?env ''a/b/k.json'') = Returns ()"
    "boto3_client ?env = Returns ()"
    "download_file ?env (S3_BUCKET cfg_s3) ''k'' ''a/b/k.json''
       = Raises (ClientError (Some ''NoSuchKey''))"
    by (simp_all add: env_ok_def posix_dirname_examples)
  have c: "is_not_found (ClientError (Some ''NoSuchKey''))"
    by (simp add: not_found_code_def)
  show ?thesis
    using s3_enabled_cfg_s3 a c
      s3_download_file_leaves_directories [OF s3_enabled_cfg_s3 a b c]
    by (simp add: d posix_dirname_examples os_path_exists_def s_empty_def cfg_s3_def
          insert_commute)
qed

section \<open>Exceptions that leave the module\<close>

lemma s3_read_json_returns: "\<exists>r. fst (s3_read_json cfg env key s) = Returns r"
  by (auto simp: s3_read_json_def prog_defs split: outcome.splits exn.splits)

lemma s3_write_json_returns: "\<exists>b. fst (s3_write_json cfg env key doc s) = Returns b"
  by (auto simp: s3_write_json_def prog_defs split: outcome.splits exn.splits)

lemma s3_upload_file_returns: "\<exists>b. fst (s3_upload_file cfg env local_path key s) = Returns b"
  by (auto simp: s3_upload_file_def prog_defs split: outcome.splits exn.splits)

lemma s3_delete_object_returns: "\<exists>b. fst (s3_delete_object cfg env key s) = Returns b"
  by (auto simp: s3_delete_object_def prog_defs split: outcome.splits exn.splits)

lemma s3_object_exists_raises_iff:
  "fst (s3_object_exists cfg env key s) = Raises e \<longleftrightarrow>
     s3_enabled cfg \<and> (\<exists>n. e = OtherException n)
     \<and> (boto3_client env = Raises e
        \<or> boto3_client env = Returns () \<and> head_object env (S3_BUCKET cfg) key = Raises e)"
  by (auto simp: s3_object_exists_def prog_defs split: outcome.splits exn.splits)

lemma pages_loop_Nil_Some: "pages_loop items [] (Some e) = Raises e"
  by simp

lemma s3_list_objects_raises:
  "s3_enabled cfg \<Longrightarrow> boto3_client env = Raises e \<Longrightarrow>
     s3_list_objects cfg env prefix s = (Raises e, s)"
  by (simp add: s3_list_objects_def prog_defs)

lemma s3_object_exists_client_error:
  "s3_enabled cfg \<Longrightarrow> boto3_client env = Returns () \<Longrightarrow>
   head_object env (S3_BUCKET cfg) key = Raises (ClientError c) \<Longrightarrow> \<not> not_found_code c \<Longrightarrow>
   s3_object_exists cfg env key s
     = (Returns False,
        s\<lparr>trace := trace s @ [HeadObject (S3_BUCKET cfg) key],
          error_log := error_log s
             @ [LogError ''S3 head_object failed for %s: %s'' key (ClientError c)]\<rparr>)"
  by (simp add: s3_object_exists_def prog_defs)

lemma s3_read_json_success:
  "s3_enabled cfg \<Longrightarrow> boto3_client env = Returns () \<Longrightarrow>
   get_object_body env (S3_BUCKET cfg) key = Returns payload \<Longrightarrow>
   json_loads env payload = Returns doc \<Longrightarrow>
   s3_read_json cfg env key s
     = (Returns doc, s\<lparr>trace := trace s @ [GetObject (S3_BUCKET cfg) key]\<rparr>)"
  by (simp add: s3_read_json_def prog_defs)

lemma s3_read_json_null:
  "s3_read_json cfg_s3 (env_ok\<lparr>get_object_body := \<lambda>b k. Returns ''null''\<rparr>) ''k'' s_empty
     = (Returns None, s_empty\<lparr>trace := [GetObject (Some ''bucket'') ''k'']\<rparr>)"
  by (simp add: s3_read_json_def prog_defs s3_enabled_def truthy_def env_ok_def s_empty_def
        cfg_s3_def)

lemma s3_read_json_not_found:
  "s3_enabled cfg \<Longrightarrow> boto3_client env = Returns () \<Longrightarrow>
   get_object_body env (S3_BUCKET cfg) key = Raises e \<Longrightarrow> is_not_found e \<Longrightarrow>
   s3_read_json cfg env key s
     = (Returns None, s\<lparr>trace := trace s @ [GetObject (S3_BUCKET cfg) key]\<rparr>)"
  by (cases e) (simp_all add: s3_read_json_def prog_defs)

lemma s3_read_json_error:
  assumes "s3_enabled cfg"
    and "boto3_client env = Raises e
         \<or> boto3_client env = Returns ()
           \<and> (get_object_body env (S3_BUCKET cfg) key = Raises e
              \<or> (\<exists>payload. get_object_body env (S3_BUCKET cfg) key = Returns payload
                    \<and> json_loads env payload = Raises e))"
    and "\<not> is_not_found e"
  shows "fst (s3_read_json cfg env key s) = Returns None
         \<and> error_log (snd (s3_read_json cfg env key s))
             = error_log s
               @ [LogError (case e of ClientError c \<Rightarrow> ''S3 get_object failed for %s: %s''
                            | OtherException n \<Rightarrow> ''S3 read_json failed for %s: %s'') key e]"
  using assms by (cases e) (auto simp: s3_read_json_def prog_defs)

text \<open>
  Claim C1 says that no operation raises. With the store enabled, \<^verbatim>\<open>s3_object_exists\<close>
  lets an exception that is not a \<^verbatim>\<open>ClientError\<close> through (here the endpoint cannot be
  reached), \<^verbatim>\<open>ensure_local_file\<close> raises with it, and \<^verbatim>\<open>s3_list_objects\<close>, which has no
  handler, raises whatever the listing raises. The other operations always return
  (lemmas \<open>s3_read_json_returns\<close>, \<open>s3_write_json_returns\<close>, \<open>s3_download_file_returns\<close>,
  \<open>s3_upload_file_returns\<close>, \<open>s3_delete_object_returns\<close>).
\<close>

theorem s3_object_exists_and_list_objects_raise:
  "s3_enabled cfg_s3
   \<and> s3_object_exists cfg_s3
        (env_ok\<lparr>head_object := \<lambda>b k. Raises (OtherException ''EndpointConnectionError'')\<rparr>)
        ''k'' s_empty
      = (Raises (OtherException ''EndpointConnectionError''),
         s_empty\<lparr>trace := [HeadObject (Some ''bucket'') ''k'']\<rparr>)
   \<and> ensure_local_file cfg_s3
        (env_ok\<lparr>head_object := \<lambda>b k. Raises (OtherException ''EndpointConnectionError'')\<rparr>)
        ''cache/k.json'' ''k'' s_empty
      = (Raises (OtherException ''EndpointConnectionError''),
         s_empty\<lparr>trace := [HeadObject (Some ''bucket'') ''k'']\<rparr>)
   \<and> s3_list_objects cfg_s3
        (env_ok\<lparr>paginate := \<lambda>b p. ([], Some (ClientError (Some ''AccessDenied'')))\<rparr>)
        ''p/'' s_empty
      = (Raises (ClientError (Some ''AccessDenied'')),
         s_empty\<lparr>trace := [ListObjectsV2 (Some ''bucket'') ''p/'']\<rparr>)"
  by (simp add: s3_object_exists_def ensure_local_file_def s3_list_objects_def prog_defs
        os_path_exists_def s3_enabled_def truthy_def env_ok_def s_empty_def cfg_s3_def)

text \<open>
  Claim C5 says that a failure other than "not found" is logged and gives false or
  absent. \<^verbatim>\<open>s3_read_json\<close> does so for every exception (lemmas \<open>s3_read_json_not_found\<close>
  and \<open>s3_read_json_error\<close>), and \<^verbatim>\<open>s3_object_exists\<close> for a \<^verbatim>\<open>ClientError\<close>
  (lemmas \<open>s3_object_exists_absent\<close> and \<open>s3_object_exists_client_error\<close>). A connection
  timeout of \<^verbatim>\<open>head_object\<close>, which is not a \<^verbatim>\<open>ClientError\<close>, is neither logged nor turned
  into false by \<^verbatim>\<open>s3_object_exists\<close>, while \<^verbatim>\<open>s3_read_json\<close> logs the same failure of
  \<^verbatim>\<open>get_object\<close> and returns \<open>None\<close>.
\<close>

theorem s3_object_exists_failure_not_logged:
  "s3_enabled cfg_s3
   \<and> \<not> is_not_found (OtherException ''ConnectTimeoutError'')
   \<and> fst (s3_object_exists cfg_s3
        (env_ok\<lparr>head_object := \<lambda>b k. Raises (OtherException ''ConnectTimeoutError'')\<rparr>)
        ''k'' s_empty) \<noteq> Returns False
   \<and> error_log (snd (s3_object_exists cfg_s3
        (env_ok\<lparr>head_object := \<lambda>b k. Raises (OtherException ''ConnectTimeoutError'')\<rparr>)
        ''k'' s_empty)) = []
   \<and> s3_read_json cfg_s3
        (env_ok\<lparr>get_object_body := \<lambda>b k. Raises (OtherException ''ConnectTimeoutError'')\<rparr>)
        ''k'' s_empty
      = (Returns None,
         s_empty\<lparr>trace := [GetObject (Some ''bucket'') ''k''],
           error_log := [LogError ''S3 read_json failed for %s: %s'' ''k''
                           (OtherException ''ConnectTimeoutError'')]\<rparr>)"
  by (simp add: s3_object_exists_def s3_read_json_def prog_defs
        s3_enabled_def truthy_def env_ok_def s_empty_def cfg_s3_def)

lemma parse_s3_last_modified_None: "parse_s3_last_modified env None = None"
  by (simp add: parse_s3_last_modified_def)

end
